theory Spec2Isabelle
  imports Main "HOL-Library.AList" "HOL-Library.Sublist"
begin

section \<open>FileSync: a shallow embedding of \<open>client/main.py\<close>\<close>

text \<open>
  The program keeps its configuration as the value that \<open>json.loads\<close> returns and never
  checks its shape, so the model keeps it as an untyped JSON value too. The same datatype
  serves for the Python values that \<open>updateConfig\<close> receives (\<open>str\<close>, \<open>dict\<close> or \<open>None\<close>).
  A \<open>dict\<close> is an association list in insertion order, as \<open>json.dumps\<close> writes it.
\<close>

subsection \<open>Python values, exceptions and results\<close>

datatype json =
    JNull
  | JBool bool
  | JInt int
  | JStr string
  | JList "json list"
  | JDict "(string \<times> json) list"

datatype py_exn =
    KeyError
  | TypeError
  | AttributeError
  | FileNotFoundError
  | EOFError

text \<open>
  A call returns a value, ends the process through \<open>sys.exit(n)\<close>, or lets an exception
  escape that nothing in the program catches.
\<close>

datatype 'a outcome = Ret 'a | Exit nat | Raise py_exn

fun bind :: "'a outcome \<Rightarrow> ('a \<Rightarrow> 'b outcome) \<Rightarrow> 'b outcome" where
  "bind (Ret a) k = k a"
| "bind (Exit n) k = Exit n"
| "bind (Raise e) k = Raise e"

text \<open>Truth value of a Python object in an \<open>if\<close>.\<close>

fun py_truthy :: "json \<Rightarrow> bool" where
  "py_truthy JNull = False"
| "py_truthy (JBool b) = b"
| "py_truthy (JInt n) = (n \<noteq> 0)"
| "py_truthy (JStr s) = (s \<noteq> [])"
| "py_truthy (JList xs) = (xs \<noteq> [])"
| "py_truthy (JDict kvs) = (kvs \<noteq> [])"

text \<open>
  \<open>obj[key]\<close> with a \<open>str\<close> key: a lookup in a \<open>dict\<close> (\<open>KeyError\<close> when the key is
  missing); every other JSON value refuses a \<open>str\<close> subscript with \<open>TypeError\<close>.
\<close>

fun py_getitem :: "json \<Rightarrow> string \<Rightarrow> json outcome" where
  "py_getitem (JDict kvs) k = (case map_of kvs k of None \<Rightarrow> Raise KeyError | Some v \<Rightarrow> Ret v)"
| "py_getitem _ k = Raise TypeError"

text \<open>
  \<open>key in obj\<close> with a \<open>str\<close> key: key membership in a \<open>dict\<close>, element membership in a
  \<open>list\<close>, substring test in a \<open>str\<close>, \<open>TypeError\<close> on \<open>None\<close>, \<open>bool\<close> and \<open>int\<close>.
\<close>

fun py_contains :: "string \<Rightarrow> json \<Rightarrow> bool outcome" where
  "py_contains k (JDict kvs) = Ret (k \<in> set (map fst kvs))"
| "py_contains k (JList xs) = Ret (JStr k \<in> set xs)"
| "py_contains k (JStr s) = Ret (sublist k s)"
| "py_contains k _ = Raise TypeError"

subsection \<open>\<open>secure_compare\<close>\<close>

text \<open>
  \<^verbatim>\<open>
  def secure_compare(hash1: str, hash2: str) -> bool:
      if len(hash1) != len(hash2):
          return False
      return hash1 == hash2
  \<close>
\<close>

definition secure_compare :: "string \<Rightarrow> string \<Rightarrow> bool" where
  "secure_compare hash1 hash2 =
     (if length hash1 \<noteq> length hash2 then False else hash1 = hash2)"

text \<open>
  The callers pass the digest just computed, a \<open>str\<close>, as \<open>hash1\<close> and a value read from
  the configuration as \<open>hash2\<close>. When that value is not a \<open>str\<close>: \<open>len\<close> raises
  \<open>TypeError\<close> on \<open>None\<close>, \<open>bool\<close> and \<open>int\<close>; on a \<open>list\<close> or \<open>dict\<close> it succeeds and
  the function returns \<open>False\<close>, from the length test or from \<open>==\<close> between a \<open>str\<close> and
  a container.
\<close>

fun secure_compare_stored :: "string \<Rightarrow> json \<Rightarrow> bool outcome" where
  "secure_compare_stored hash1 (JStr hash2) = Ret (secure_compare hash1 hash2)"
| "secure_compare_stored hash1 (JList xs) = Ret False"
| "secure_compare_stored hash1 (JDict kvs) = Ret False"
| "secure_compare_stored hash1 _ = Raise TypeError"

subsection \<open>The world the program runs in\<close>

text \<open>
  Library functions the program calls but does not define are parameters of the model:
  \<open>hashlib.md5(data).hexdigest()\<close>, \<open>json.dumps\<close>, \<open>json.loads\<close> (\<open>None\<close> stands for
  the exception it raises on text that is not JSON) and \<open>os.path.sep\<close>.
\<close>

record ext =
  md5_hex :: "string \<Rightarrow> string"
  json_dumps :: "json \<Rightarrow> string"
  json_loads :: "string \<Rightarrow> json option"
  path_sep :: char

text \<open>
  What the program does to the outside, in the order it does it: the transport calls
  (\<open>scp.put\<close>, \<open>scp.get\<close>, \<open>ssh.exec_command('md5sum ...')\<close>) and the log lines of
  \<open>sync\<close>, one constructor for each. The log lines of the helper methods are left out.
\<close>

datatype event =
    ScpPut string string
  | ScpGet string string
  | ExecMd5sum string
  | LogLocalChangedUpload string
  | LogRemoteUpdated string
  | LogLocalHashNotFound string
  | LogRemoteChangedDownload string
  | LogLocalUpdated string
  | LogRemoteHashNotFound string
  | LogUpToDate string
  | LogLocalNotFoundTryDownload string
  | LogFileCopied
  | LogNotFoundRemoteAndLocal string
  | LogAllChecked

text \<open>
  \<^item> \<open>config\<close> is \<open>self.config\<close>, assigned once in \<open>__init__\<close>;
  \<^item> \<open>cfg_file\<close> is the content of \<open>config.json\<close> (\<open>None\<close>: no such file), and
    \<open>cfg_read_ok\<close>, \<open>cfg_write_ok\<close> say whether opening it for reading, for writing,
    succeeds;
  \<^item> \<open>local_fs\<close> and \<open>remote_fs\<close> map the paths of the local and the remote machine to
    file contents; directories are left out, and a tracked path is taken to be another
    file than \<open>config.json\<close>;
  \<^item> \<open>conn_ok\<close> decides the next calls of \<open>SSHClient.connect\<close> and \<open>scp_ok\<close> the next
    transfers (\<open>False\<close>: the call raises); when the list is used up the call succeeds;
  \<^item> \<open>stdin\<close> holds the lines \<open>input()\<close> will read, \<open>username_env\<close> is
    \<open>os.environ.get('USERNAME')\<close>, and \<open>trace\<close> collects the events.
\<close>

record world =
  config :: json
  cfg_file :: "string option"
  cfg_read_ok :: bool
  cfg_write_ok :: bool
  local_fs :: "string \<rightharpoonup> string"
  remote_fs :: "string \<rightharpoonup> string"
  conn_ok :: "bool list"
  scp_ok :: "bool list"
  stdin :: "string list"
  username_env :: "string option"
  trace :: "event list"

fun and_then :: "'a outcome \<times> world \<Rightarrow> ('a \<Rightarrow> world \<Rightarrow> 'b outcome \<times> world) \<Rightarrow> 'b outcome \<times> world" where
  "and_then (Ret a, w) k = k a w"
| "and_then (Exit n, w) k = (Exit n, w)"
| "and_then (Raise e, w) k = (Raise e, w)"

definition emit :: "event \<Rightarrow> world \<Rightarrow> world" where
  "emit e w = w\<lparr>trace := trace w @ [e]\<rparr>"

subsection \<open>Paths\<close>

text \<open>\<open>s.split(sep)\<close> for a separator of one character: never an empty list.\<close>

fun split_sep :: "char \<Rightarrow> string \<Rightarrow> string list" where
  "split_sep sep [] = [[]]"
| "split_sep sep (c # cs) =
     (if c = sep then [] # split_sep sep cs
      else (case split_sep sep cs of
              [] \<Rightarrow> [[c]]
            | p # ps \<Rightarrow> (c # p) # ps))"

text \<open>\<open>filepath.split(os.path.sep)[::-1][0]\<close>: the part after the last separator.\<close>

definition last_component :: "ext \<Rightarrow> string \<Rightarrow> string" where
  "last_component X filepath = hd (rev (split_sep (path_sep X) filepath))"

definition REMOTE_PATH :: string where
  "REMOTE_PATH = ''.FileSync''"

text \<open>\<open>f'{self.REMOTE_PATH}/{filepath.split(os.path.sep)[::-1][0]}'\<close>\<close>

definition remote_path :: "ext \<Rightarrow> string \<Rightarrow> string" where
  "remote_path X filepath = REMOTE_PATH @ ''/'' @ last_component X filepath"

subsection \<open>Hashing and connecting\<close>

text \<open>\<open>getMD5\<close> opens the file: a missing file raises.\<close>

definition getMD5 :: "ext \<Rightarrow> string \<Rightarrow> world \<Rightarrow> string outcome" where
  "getMD5 X filepath w =
     (case local_fs w filepath of
        None \<Rightarrow> Raise FileNotFoundError
      | Some data \<Rightarrow> Ret (md5_hex X data))"

text \<open>
  \<open>getSSHClient\<close> returns a client or, when \<open>connect\<close> raises, \<open>None\<close>; the model returns
  whether there is a client. \<open>getSCPClient\<close> wraps it.
\<close>

definition getSSHClient :: "world \<Rightarrow> bool \<times> world" where
  "getSSHClient w =
     (case conn_ok w of
        [] \<Rightarrow> (True, w)
      | b # bs \<Rightarrow> (b, w\<lparr>conn_ok := bs\<rparr>))"

definition getSCPClient :: "world \<Rightarrow> bool \<times> world" where
  "getSCPClient w = getSSHClient w"

text \<open>Whether the next transfer goes through, and the world after it has been tried.\<close>

definition next_transfer :: "world \<Rightarrow> bool \<times> world" where
  "next_transfer w =
     (case scp_ok w of
        [] \<Rightarrow> (True, w)
      | b # bs \<Rightarrow> (b, w\<lparr>scp_ok := bs\<rparr>))"

definition lift :: "'a outcome \<Rightarrow> world \<Rightarrow> 'a outcome \<times> world" where
  "lift r w = (r, w)"

subsection \<open>Transfers\<close>

text \<open>
  \<open>upload\<close>: without a client \<open>False\<close>; otherwise \<open>scp.put(filepath, remote_path)\<close>,
  where only \<open>SCPException\<close> is caught (\<open>False\<close>), so the error of a missing local file
  escapes. A transfer that goes through stores the local content under \<open>remote_path\<close>.
\<close>

definition upload :: "ext \<Rightarrow> string \<Rightarrow> world \<Rightarrow> bool outcome \<times> world" where
  "upload X filepath w =
     (case getSCPClient w of (scp, w1) \<Rightarrow>
        if scp then
          (let remote = remote_path X filepath;
               w2 = emit (ScpPut filepath remote) w1
           in case local_fs w2 filepath of
                None \<Rightarrow> (Raise FileNotFoundError, w2)
              | Some data \<Rightarrow>
                  (case next_transfer w2 of (sent, w3) \<Rightarrow>
                     if sent then (Ret True, w3\<lparr>remote_fs := (remote_fs w3)(remote \<mapsto> data)\<rparr>)
                     else (Ret False, w3)))
        else (Ret False, w1))"

text \<open>
  \<open>download\<close>: without a client \<open>False\<close>; otherwise \<open>scp.get(remote_filepath, filepath)\<close>,
  where every exception is caught (\<open>False\<close>): the remote file is missing, or the transfer
  breaks. After a transfer that went through, the result is \<open>os.path.exists(filepath)\<close>.
\<close>

definition download :: "ext \<Rightarrow> string \<Rightarrow> world \<Rightarrow> bool outcome \<times> world" where
  "download X filepath w =
     (case getSCPClient w of (scp, w1) \<Rightarrow>
        if scp then
          (let remote_filepath = remote_path X filepath;
               w2 = emit (ScpGet remote_filepath filepath) w1
           in case remote_fs w2 remote_filepath of
                None \<Rightarrow> (Ret False, w2)
              | Some data \<Rightarrow>
                  (case next_transfer w2 of (received, w3) \<Rightarrow>
                     if received then
                       (let w4 = w3\<lparr>local_fs := (local_fs w3)(filepath \<mapsto> data)\<rparr>
                        in (Ret (local_fs w4 filepath \<noteq> None), w4))
                     else (Ret False, w3)))
        else (Ret False, w1))"

subsection \<open>Comparing with the stored digests\<close>

text \<open>
  \<open>checkRemoteFile\<close> runs \<open>md5sum remote_path\<close> on the host. A missing file answers on
  stderr (\<open>False\<close>); otherwise the first word of stdout is the digest of the remote
  content, taken to be the function \<open>md5_hex\<close> that \<open>hashlib\<close> computes. The stored digest
  is \<open>self.config['remote_hashes'][remote_path]\<close>, read behind a test of
  \<open>self.config['remote_hashes']\<close> alone. The debug line is an f-string, evaluated whatever
  the log level: it calls \<open>getMD5(filepath)\<close> on the local file.
\<close>

definition checkRemoteFile :: "ext \<Rightarrow> string \<Rightarrow> world \<Rightarrow> bool outcome \<times> world" where
  "checkRemoteFile X filepath w =
     (case getSSHClient w of (ssh, w1) \<Rightarrow>
        if ssh then
          (let remote = remote_path X filepath;
               w2 = emit (ExecMd5sum remote) w1
           in case remote_fs w2 remote of
                None \<Rightarrow> (Ret False, w2)
              | Some data \<Rightarrow>
                  (let hash = md5_hex X data
                   in lift
                        (bind (py_getitem (config w2) ''remote_hashes'') (\<lambda>hashes.
                           if py_truthy hashes then
                             bind (py_getitem hashes remote) (\<lambda>stored.
                               if py_truthy stored then
                                 bind (getMD5 X filepath w2) (\<lambda>_.
                                   secure_compare_stored hash stored)
                               else Ret False)
                           else Ret False))
                        w2))
        else (Ret False, w1))"

text \<open>
  \<open>checkLocalFile\<close> tests \<open>filepath in self.config['local_hashes']\<close> before it reads the
  stored digest. It changes nothing and reaches no transport, so it is a function of the
  world.
\<close>

definition checkLocalFile :: "ext \<Rightarrow> string \<Rightarrow> world \<Rightarrow> bool outcome" where
  "checkLocalFile X filepath w =
     (if local_fs w filepath \<noteq> None then
        bind (py_getitem (config w) ''local_hashes'') (\<lambda>hashes.
          if py_truthy hashes then
            bind (py_contains filepath hashes) (\<lambda>found.
              if found then
                bind (getMD5 X filepath w) (\<lambda>hash.
                  bind (py_getitem hashes filepath) (\<lambda>stored.
                    secure_compare_stored hash stored))
              else Ret False)
          else Ret False)
      else Ret False)"

subsection \<open>Writing the stored digests\<close>

text \<open>
  Lines 429 to 435 of \<open>updateConfig\<close>, on the value \<open>json.loads\<close> returned:
  \<^verbatim>\<open>
  if key in config:
      if config[key] and type(value) is dict:
          config[key] = config[key].update(value)
      else:
          config[key] = value
  else:
      config[key] = value
  \<close>
  \<open>dict.update\<close> changes the dictionary in place and returns \<open>None\<close>, and it is that
  \<open>None\<close> which the assignment stores under \<open>key\<close>. A true value that is not a \<open>dict\<close> has
  no \<open>update\<close> (\<open>AttributeError\<close>). A loaded value that is not a \<open>dict\<close> fails with
  \<open>TypeError\<close>, at \<open>in\<close>, at the \<open>str\<close> subscript or at the assignment.
\<close>

fun is_dict :: "json \<Rightarrow> bool" where
  "is_dict (JDict kvs) = True"
| "is_dict _ = False"

fun assign_key :: "json \<Rightarrow> string \<Rightarrow> json \<Rightarrow> json outcome" where
  "assign_key (JDict kvs) key val =
     (case map_of kvs key of
        Some cur \<Rightarrow>
          if py_truthy cur \<and> is_dict val then
            (if is_dict cur then Ret (JDict (AList.update key JNull kvs))
             else Raise AttributeError)
          else Ret (JDict (AList.update key val kvs))
      | None \<Rightarrow> Ret (JDict (AList.update key val kvs)))"
| "assign_key _ key val = Raise TypeError"

text \<open>
  \<open>updateConfig\<close> reads \<open>config.json\<close> again, changes the loaded value and writes it back.
  A missing file, a failed read, text that does not parse and a failed write each end the
  process with \<open>sys.exit(1)\<close>. The exceptions of \<open>assign_key\<close> are raised in the \<open>else\<close>
  part of the \<open>try\<close>, where no handler applies. \<open>self.config\<close> is not touched.
\<close>

definition updateConfig :: "ext \<Rightarrow> string \<Rightarrow> json \<Rightarrow> world \<Rightarrow> bool outcome \<times> world" where
  "updateConfig X key val w =
     (case cfg_file w of
        None \<Rightarrow> (Exit 1, w)
      | Some raw \<Rightarrow>
          if \<not> cfg_read_ok w then (Exit 1, w)
          else (case json_loads X raw of
                  None \<Rightarrow> (Exit 1, w)
                | Some loaded \<Rightarrow>
                    and_then (lift (assign_key loaded key val) w) (\<lambda>changed w.
                      if cfg_write_ok w
                      then (Ret True, w\<lparr>cfg_file := Some (json_dumps X changed)\<rparr>)
                      else (Exit 1, w))))"

definition updateRemoteHash :: "ext \<Rightarrow> string \<Rightarrow> world \<Rightarrow> bool outcome \<times> world" where
  "updateRemoteHash X filepath w =
     (case getSSHClient w of (ssh, w1) \<Rightarrow>
        if ssh then
          (let remote = remote_path X filepath;
               w2 = emit (ExecMd5sum remote) w1
           in case remote_fs w2 remote of
                None \<Rightarrow> (Ret False, w2)
              | Some data \<Rightarrow>
                  and_then
                    (updateConfig X ''remote_hashes'' (JDict [(remote, JStr (md5_hex X data))]) w2)
                    (\<lambda>_ w3. (Ret True, w3)))
        else (Ret False, w1))"

definition updateLocalHash :: "ext \<Rightarrow> string \<Rightarrow> world \<Rightarrow> bool outcome \<times> world" where
  "updateLocalHash X filepath w =
     (if local_fs w filepath \<noteq> None then
        and_then (lift (getMD5 X filepath w) w) (\<lambda>hash w1.
          and_then (updateConfig X ''local_hashes'' (JDict [(filepath, JStr hash)]) w1)
            (\<lambda>_ w2. (Ret True, w2)))
      else (Ret False, w))"

subsection \<open>The loop of \<open>sync\<close>\<close>

text \<open>\<open>self.config[key] and file in self.config[key]\<close>, the test of lines 503 and 520.\<close>

definition hash_recorded :: "string \<Rightarrow> string \<Rightarrow> world \<Rightarrow> bool outcome" where
  "hash_recorded key file w =
     bind (py_getitem (config w) key) (\<lambda>hashes.
       if py_truthy hashes then py_contains file hashes else Ret False)"

text \<open>
  Lines 504 to 508, and again 513 to 518: the log line, \<open>upload\<close>, \<open>updateLocalHash\<close>,
  \<open>updateRemoteHash\<close>, the log line. The three results are not looked at.
\<close>

definition upload_branch :: "ext \<Rightarrow> string \<Rightarrow> world \<Rightarrow> unit outcome \<times> world" where
  "upload_branch X file w =
     and_then (upload X file (emit (LogLocalChangedUpload file) w)) (\<lambda>_ w1.
       and_then (updateLocalHash X file w1) (\<lambda>_ w2.
         and_then (updateRemoteHash X file w2) (\<lambda>_ w3.
           (Ret (), emit (LogRemoteUpdated file) w3))))"

text \<open>
  Lines 521 to 525, and again 531 to 537: the log line, \<open>download\<close>, \<open>updateRemoteHash\<close>,
  \<open>updateLocalHash\<close>, the log line. The three results are not looked at.
\<close>

definition download_branch :: "ext \<Rightarrow> string \<Rightarrow> world \<Rightarrow> unit outcome \<times> world" where
  "download_branch X file w =
     and_then (download X file (emit (LogRemoteChangedDownload file) w)) (\<lambda>_ w1.
       and_then (updateRemoteHash X file w1) (\<lambda>_ w2.
         and_then (updateLocalHash X file w2) (\<lambda>_ w3.
           (Ret (), emit (LogLocalUpdated file) w3))))"

text \<open>
  The body of the \<open>for\<close> loop, lines 501 to 549, for one tracked file.
  \<^verbatim>\<open>
  if os.path.exists(file):
      if (not self.checkLocalFile(file)):
          if self.config['local_hashes'] and file in self.config['local_hashes']:
              <upload branch>
          else:
              self.updateLocalHash(file)
              if (not self.checkLocalFile(file)):
                  <upload branch>
      elif (not self.checkRemoteFile(file)):
          if self.config['remote_hashes'] and file in self.config['remote_hashes']:
              <download branch>
          else:
              self.updateRemoteHash(file)
              if (not self.checkLocalFile(file)):
                  <download branch>
      else:
          continue
  else:
      if self.download(file):
          self.updateLocalHash(file)
          self.updateRemoteHash(file)
          continue
      else:
          self.log.error(... not found in remote and local. Skipping.)
  \<close>
\<close>

definition sync_file :: "ext \<Rightarrow> string \<Rightarrow> world \<Rightarrow> unit outcome \<times> world" where
  "sync_file X file w =
     (if local_fs w file \<noteq> None then
        and_then (lift (checkLocalFile X file w) w) (\<lambda>local_same w.
          if \<not> local_same then
            and_then (lift (hash_recorded ''local_hashes'' file w) w) (\<lambda>recorded w.
              if recorded then upload_branch X file w
              else
                and_then (updateLocalHash X file (emit (LogLocalHashNotFound file) w)) (\<lambda>_ w1.
                  and_then (lift (checkLocalFile X file w1) w1) (\<lambda>local_same1 w1.
                    if \<not> local_same1 then upload_branch X file w1
                    else (Ret (), w1))))
          else
            and_then (checkRemoteFile X file w) (\<lambda>remote_same w1.
              if \<not> remote_same then
                and_then (lift (hash_recorded ''remote_hashes'' file w1) w1) (\<lambda>recorded w1.
                  if recorded then download_branch X file w1
                  else
                    and_then (updateRemoteHash X file (emit (LogRemoteHashNotFound file) w1)) (\<lambda>_ w2.
                      and_then (lift (checkLocalFile X file w2) w2) (\<lambda>local_same2 w2.
                        if \<not> local_same2 then download_branch X file w2
                        else (Ret (), w2))))
              else (Ret (), emit (LogUpToDate file) w1)))
      else
        and_then (download X file (emit (LogLocalNotFoundTryDownload file) w)) (\<lambda>copied w1.
          if copied then
            and_then (updateLocalHash X file w1) (\<lambda>_ w2.
              and_then (updateRemoteHash X file w2) (\<lambda>_ w3.
                (Ret (), emit LogFileCopied w3)))
          else (Ret (), emit (LogNotFoundRemoteAndLocal file) w1)))"

text \<open>
  \<open>for file in self.config['local_files']\<close>: a \<open>list\<close> yields its elements, a \<open>dict\<close> its
  keys, a \<open>str\<close> its characters; \<open>None\<close>, \<open>bool\<close> and \<open>int\<close> cannot be iterated. An
  element that is not a \<open>str\<close> is taken to fail in \<open>os.path.exists\<close> with \<open>TypeError\<close>.
\<close>

fun py_iter :: "json \<Rightarrow> json list outcome" where
  "py_iter (JList xs) = Ret xs"
| "py_iter (JDict kvs) = Ret (map (\<lambda>kv. JStr (fst kv)) kvs)"
| "py_iter (JStr s) = Ret (map (\<lambda>c. JStr [c]) s)"
| "py_iter _ = Raise TypeError"

fun sync_files :: "ext \<Rightarrow> json list \<Rightarrow> world \<Rightarrow> unit outcome \<times> world" where
  "sync_files X [] w = (Ret (), w)"
| "sync_files X (JStr file # files) w =
     and_then (sync_file X file w) (\<lambda>_ w1. sync_files X files w1)"
| "sync_files X (_ # files) w = (Raise TypeError, w)"

text \<open>One pass of the \<open>while True\<close> loop, up to the \<open>time.sleep(10)\<close>.\<close>

definition sync_cycle :: "ext \<Rightarrow> world \<Rightarrow> unit outcome \<times> world" where
  "sync_cycle X w =
     and_then (lift (bind (py_getitem (config w) ''local_files'') py_iter) w) (\<lambda>files w1.
       and_then (sync_files X files w1) (\<lambda>_ w2. (Ret (), emit LogAllChecked w2)))"

text \<open>
  \<open>sync\<close> never returns: it leaves the loop only when the process ends or an exception
  escapes. The model runs a given number of passes and returns the world after them.
\<close>

fun sync :: "ext \<Rightarrow> nat \<Rightarrow> world \<Rightarrow> unit outcome \<times> world" where
  "sync X 0 w = (Ret (), w)"
| "sync X (Suc n) w = and_then (sync_cycle X w) (\<lambda>_ w1. sync X n w1)"

subsection \<open>\<open>initConfig\<close>: loading the configuration, or asking for it\<close>

text \<open>\<open>input()\<close> takes the next line, and raises \<open>EOFError\<close> when there is none.\<close>

definition py_input :: "world \<Rightarrow> string outcome \<times> world" where
  "py_input w =
     (case stdin w of
        [] \<Rightarrow> (Raise EOFError, w)
      | line # rest \<Rightarrow> (Ret line, w\<lparr>stdin := rest\<rparr>))"

text \<open>
  \<open>str.isdigit\<close>, \<open>int\<close> and \<open>str.lower\<close> on characters that are bytes: the decimal
  digits and the letters A to Z.
\<close>

definition is_digit :: "char \<Rightarrow> bool" where
  "is_digit c = (48 \<le> (of_char c :: nat) \<and> (of_char c :: nat) \<le> 57)"

definition isdigit :: "string \<Rightarrow> bool" where
  "isdigit s = (s \<noteq> [] \<and> list_all is_digit s)"

definition int_of_digits :: "string \<Rightarrow> int" where
  "int_of_digits s = foldl (\<lambda>n c. 10 * n + (int (of_char c) - 48)) 0 s"

definition lower_char :: "char \<Rightarrow> char" where
  "lower_char c =
     (if 65 \<le> (of_char c :: nat) \<and> (of_char c :: nat) \<le> 90
      then char_of ((of_char c :: nat) + 32) else c)"

definition lower :: "string \<Rightarrow> string" where
  "lower s = map lower_char s"

text \<open>
  \<^verbatim>\<open>
  while True:
      port = input('Enter port (default: 22): ')
      if port and port.isdigit():
          config['port'] = int(port)
          break
      elif (not port):
          break
      print('Enter correct port!')
  \<close>
  The first argument is the port the configuration holds so far.
\<close>

function ask_port :: "int \<Rightarrow> world \<Rightarrow> int outcome \<times> world" where
  "ask_port port0 w =
     (case stdin w of
        [] \<Rightarrow> (Raise EOFError, w)
      | port # rest \<Rightarrow>
          if port \<noteq> [] \<and> isdigit port then (Ret (int_of_digits port), w\<lparr>stdin := rest\<rparr>)
          else if port = [] then (Ret port0, w\<lparr>stdin := rest\<rparr>)
          else ask_port port0 (w\<lparr>stdin := rest\<rparr>))"
  by pat_completeness auto
termination
  by (relation "measure (\<lambda>(port0, w). length (stdin w))") auto

text \<open>
  \<^verbatim>\<open>
  stop_count = 0
  while True:
      file = input('Enter path to files (type "stop" for stop adding files.): ')
      if file.lower() == 'stop':
          if len(config['local_files']) < 0:
              if stop_count > 1:
                  self.log.error('No files added for syncing.')
                  sys.exit(1)
              print('You need add at least 1 file!')
              stop_count += 1
              continue
          break
      if os.path.exists(file):
          config['local_files'].append(file)
  \<close>
\<close>

function ask_files :: "string list \<Rightarrow> nat \<Rightarrow> world \<Rightarrow> string list outcome \<times> world" where
  "ask_files local_files stop_count w =
     (case stdin w of
        [] \<Rightarrow> (Raise EOFError, w)
      | file # rest \<Rightarrow>
          if lower file = ''stop'' then
            (if int (length local_files) < 0 then
               (if stop_count > 1 then (Exit 1, w\<lparr>stdin := rest\<rparr>)
                else ask_files local_files (stop_count + 1) (w\<lparr>stdin := rest\<rparr>))
             else (Ret local_files, w\<lparr>stdin := rest\<rparr>))
          else if local_fs w file \<noteq> None
            then ask_files (local_files @ [file]) stop_count (w\<lparr>stdin := rest\<rparr>)
            else ask_files local_files stop_count (w\<lparr>stdin := rest\<rparr>))"
  by pat_completeness auto
termination
  by (relation "measure (\<lambda>(local_files, stop_count, w). length (stdin w))") auto

text \<open>
  \<open>for file in config['local_files']: config['local_hashes'].update({file: self.getMD5(file)})\<close>
\<close>

fun hash_files :: "ext \<Rightarrow> string list \<Rightarrow> (string \<times> json) list \<Rightarrow> world \<Rightarrow> (string \<times> json) list outcome" where
  "hash_files X [] local_hashes w = Ret local_hashes"
| "hash_files X (file # files) local_hashes w =
     bind (getMD5 X file w) (\<lambda>hash.
       hash_files X files (AList.update file (JStr hash) local_hashes) w)"

text \<open>
  With a \<open>config.json\<close>: its parsed content, and \<open>sys.exit(1)\<close> when it cannot be read or
  parsed. Without one: the template filled from the answers, written to \<open>config.json\<close>
  (\<open>sys.exit(1)\<close> when that fails) and returned.
\<close>

definition initConfig :: "ext \<Rightarrow> world \<Rightarrow> json outcome \<times> world" where
  "initConfig X w =
     (case cfg_file w of
        Some raw \<Rightarrow>
          if \<not> cfg_read_ok w then (Exit 1, w)
          else (case json_loads X raw of
                  None \<Rightarrow> (Exit 1, w)
                | Some loaded \<Rightarrow> (Ret loaded, w))
      | None \<Rightarrow>
          and_then (py_input w) (\<lambda>hostname w.
          and_then (ask_port 22 w) (\<lambda>port w.
          and_then (py_input w) (\<lambda>name w.
          and_then (py_input w) (\<lambda>password w.
          and_then (ask_files [] 0 w) (\<lambda>local_files w.
          and_then (lift (hash_files X local_files [] w) w) (\<lambda>local_hashes w.
            (let username =
                   (if name = [] then
                      (case username_env w of None \<Rightarrow> JNull | Some u \<Rightarrow> JStr u)
                    else JStr name);
                 cfg = JDict
                   [(''hostname'', JStr hostname),
                    (''port'', JInt port),
                    (''username'', username),
                    (''password'', JStr password),
                    (''local_files'', JList (map JStr local_files)),
                    (''local_hashes'', JDict local_hashes),
                    (''remote_hashes'', JDict [])]
             in if cfg_write_ok w
                then (Ret cfg, w\<lparr>cfg_file := Some (json_dumps X cfg)\<rparr>)
                else (Exit 1, w)))))))))"

text \<open>
  \<open>__init__\<close>: \<open>self.config = self.initConfig()\<close>, then \<open>checkConnection\<close>, which opens one
  connection and only logs what it finds.
\<close>

definition init :: "ext \<Rightarrow> world \<Rightarrow> unit outcome \<times> world" where
  "init X w =
     and_then (initConfig X w) (\<lambda>cfg w1.
       (Ret (), snd (getSSHClient (w1\<lparr>config := cfg\<rparr>))))"

section \<open>An instance of the library functions\<close>

text \<open>
  To run the model on concrete inputs the parameters need values. \<open>demo_dumps\<close> writes
  JSON text with the separators \<open>json.dumps\<close> uses by default and escapes the double quote
  and the backslash in strings; \<open>demo_loads\<close> reads such text back, and answers \<open>None\<close> on
  text it cannot read. The first argument of the reading functions bounds the depth of
  the recursion; \<open>demo_loads\<close> passes the text itself, which is long enough.
  \<open>demo_md5\<close> is an injective stand-in for the digest.
\<close>

definition quote :: char where "quote = CHR 0x22"
definition backslash :: char where "backslash = CHR 0x5C"

fun show_nat :: "nat \<Rightarrow> string" where
  "show_nat n = (if n < 10 then [char_of (48 + n)] else show_nat (n div 10) @ [char_of (48 + n mod 10)])"
declare show_nat.simps [simp del]

definition show_int :: "int \<Rightarrow> string" where
  "show_int i = (if i < 0 then CHR ''-'' # show_nat (nat (- i)) else show_nat (nat i))"

definition escape :: "string \<Rightarrow> string" where
  "escape s = concat (map (\<lambda>c. if c = quote \<or> c = backslash then [backslash, c] else [c]) s)"

definition show_str :: "string \<Rightarrow> string" where
  "show_str s = quote # escape s @ [quote]"

fun join :: "string \<Rightarrow> string list \<Rightarrow> string" where
  "join sep [] = []"
| "join sep [x] = x"
| "join sep (x # y # ys) = x @ sep @ join sep (y # ys)"

fun demo_dumps :: "json \<Rightarrow> string" where
  "demo_dumps JNull = ''null''"
| "demo_dumps (JBool b) = (if b then ''true'' else ''false'')"
| "demo_dumps (JInt i) = show_int i"
| "demo_dumps (JStr s) = show_str s"
| "demo_dumps (JList xs) = ''['' @ join '', '' (map demo_dumps xs) @ '']''"
| "demo_dumps (JDict kvs) = ''{'' @ join '', '' (map (\<lambda>(k, v). show_str k @ '': '' @ demo_dumps v) kvs) @ ''}''"


fun skip_ws :: "string \<Rightarrow> string" where
  "skip_ws [] = []"
| "skip_ws (c # cs) = (if c = CHR '' '' then skip_ws cs else c # cs)"

fun read_str :: "string \<Rightarrow> (string \<times> string) option" where
  "read_str [] = None"
| "read_str [c] = (if c = quote then Some ([], []) else None)"
| "read_str (c # d # cs) =
     (if c = quote then Some ([], d # cs)
      else if c = backslash then
        (if d = quote \<or> d = backslash
         then map_option (\<lambda>(s, rest). (d # s, rest)) (read_str cs)
         else None)
      else map_option (\<lambda>(s, rest). (c # s, rest)) (read_str (d # cs)))"

definition read_nat :: "string \<Rightarrow> (nat \<times> string) option" where
  "read_nat s =
     (let ds = takeWhile is_digit s
      in if ds = [] then None
         else Some (nat (int_of_digits ds), dropWhile is_digit s))"

fun read_json :: "'a list \<Rightarrow> string \<Rightarrow> (json \<times> string) option"
  and read_items :: "'a list \<Rightarrow> string \<Rightarrow> (json list \<times> string) option"
  and read_members :: "'a list \<Rightarrow> string \<Rightarrow> ((string \<times> json) list \<times> string) option"
where
  "read_json [] s = None"
| "read_json (_ # fuel) s =
     (case skip_ws s of
        [] \<Rightarrow> None
      | c # cs \<Rightarrow>
          if c = quote then map_option (\<lambda>(str, rest). (JStr str, rest)) (read_str cs)
          else if c = CHR ''['' then
            (case skip_ws cs of
               [] \<Rightarrow> None
             | d # ds \<Rightarrow>
                 if d = CHR '']'' then Some (JList [], ds)
                 else map_option (\<lambda>(xs, rest). (JList xs, rest)) (read_items fuel cs))
          else if c = CHR ''{'' then
            (case skip_ws cs of
               [] \<Rightarrow> None
             | d # ds \<Rightarrow>
                 if d = CHR ''}'' then Some (JDict [], ds)
                 else map_option (\<lambda>(kvs, rest). (JDict kvs, rest)) (read_members fuel cs))
          else if c = CHR ''-'' then
            map_option (\<lambda>(n, rest). (JInt (- int n), rest)) (read_nat cs)
          else if is_digit c then
            map_option (\<lambda>(n, rest). (JInt (int n), rest)) (read_nat (c # cs))
          else if take 4 (c # cs) = ''null'' then Some (JNull, drop 4 (c # cs))
          else if take 4 (c # cs) = ''true'' then Some (JBool True, drop 4 (c # cs))
          else if take 5 (c # cs) = ''false'' then Some (JBool False, drop 5 (c # cs))
          else None)"
| "read_items [] s = None"
| "read_items (_ # fuel) s =
     (case read_json fuel s of
        None \<Rightarrow> None
      | Some (x, rest) \<Rightarrow>
          (case skip_ws rest of
             [] \<Rightarrow> None
           | c # cs \<Rightarrow>
               if c = CHR '']'' then Some ([x], cs)
               else if c = CHR '','' then
                 map_option (\<lambda>(xs, rest1). (x # xs, rest1)) (read_items fuel cs)
               else None))"
| "read_members [] s = None"
| "read_members (_ # fuel) s =
     (case skip_ws s of
        [] \<Rightarrow> None
      | q # s1 \<Rightarrow>
          if q \<noteq> quote then None
          else (case read_str s1 of
                  None \<Rightarrow> None
                | Some (k, s2) \<Rightarrow>
                    (case skip_ws s2 of
                       [] \<Rightarrow> None
                     | colon # s3 \<Rightarrow>
                         if colon \<noteq> CHR '':'' then None
                         else (case read_json fuel s3 of
                                 None \<Rightarrow> None
                               | Some (v, s4) \<Rightarrow>
                                   (case skip_ws s4 of
                                      [] \<Rightarrow> None
                                    | c # cs \<Rightarrow>
                                        if c = CHR ''}'' then Some ([(k, v)], cs)
                                        else if c = CHR '','' then
                                          map_option (\<lambda>(kvs, rest). ((k, v) # kvs, rest))
                                            (read_members fuel cs)
                                        else None)))))"

definition demo_loads :: "string \<Rightarrow> json option" where
  "demo_loads s =
     (case read_json s s of
        None \<Rightarrow> None
      | Some (v, rest) \<Rightarrow> if skip_ws rest = [] then Some v else None)"

definition demo_md5 :: "string \<Rightarrow> string" where
  "demo_md5 data = ''md5:'' @ data"

definition demo_ext :: ext where
  "demo_ext = \<lparr>md5_hex = demo_md5, json_dumps = demo_dumps, json_loads = demo_loads,
     path_sep = CHR ''/''\<rparr>"

subsection \<open>Reading the trace\<close>

text \<open>The events that bring remote content to the local machine.\<close>

fun is_get :: "event \<Rightarrow> bool" where
  "is_get (ScpGet remote_filepath filepath) = True"
| "is_get _ = False"

subsection \<open>Example configurations and worlds\<close>

text \<open>
  A configuration of the shape \<open>initConfig\<close> writes, with the given tracked files and
  stored digests, and the world right after a start with it: \<open>self.config\<close> is what
  \<open>config.json\<close> holds, the file can be read and written, every connection and transfer
  succeeds.
\<close>

definition demo_config :: "string list \<Rightarrow> (string \<times> string) list \<Rightarrow> (string \<times> string) list \<Rightarrow> json" where
  "demo_config files local_hashes remote_hashes = JDict
     [(''hostname'', JStr ''host''), (''port'', JInt 22), (''username'', JStr ''u''),
      (''password'', JStr ''p''), (''local_files'', JList (map JStr files)),
      (''local_hashes'', JDict (map (\<lambda>(k, h). (k, JStr h)) local_hashes)),
      (''remote_hashes'', JDict (map (\<lambda>(k, h). (k, JStr h)) remote_hashes))]"

definition demo_world :: "json \<Rightarrow> (string \<rightharpoonup> string) \<Rightarrow> (string \<rightharpoonup> string) \<Rightarrow> world" where
  "demo_world cfg lfs rfs =
     \<lparr>config = cfg, cfg_file = Some (demo_dumps cfg), cfg_read_ok = True, cfg_write_ok = True,
      local_fs = lfs, remote_fs = rfs, conn_ok = [], scp_ok = [], stdin = [],
      username_env = None, trace = []\<rparr>"

text \<open>One tracked file \<open>a.txt\<close>, last synchronised with content \<open>v1\<close> on both sides.\<close>

definition cfg_a :: json where
  "cfg_a = demo_config [''a.txt''] [(''a.txt'', ''md5:v1'')] [(''.FileSync/a.txt'', ''md5:v1'')]"

text \<open>Since then the local copy became \<open>v2\<close> and the remote copy \<open>v3\<close>.\<close>

definition w_both :: world where
  "w_both = demo_world cfg_a [''a.txt'' \<mapsto> ''v2''] [''.FileSync/a.txt'' \<mapsto> ''v3'']"

text \<open>The local copy became \<open>v2\<close>, and the host cannot be reached.\<close>

definition w_down :: world where
  "w_down = (demo_world cfg_a [''a.txt'' \<mapsto> ''v2''] [''.FileSync/a.txt'' \<mapsto> ''v1''])
     \<lparr>conn_ok := [False, False]\<rparr>"

text \<open>
  The same, with the host out of reach for two passes; and the world of a later start
  from the \<open>config.json\<close> those two passes leave, the host in reach again.
\<close>

definition w_down2 :: world where
  "w_down2 = (demo_world cfg_a [''a.txt'' \<mapsto> ''v2''] [''.FileSync/a.txt'' \<mapsto> ''v1''])
     \<lparr>conn_ok := [False, False, False, False]\<rparr>"

definition w_restart :: world where
  "w_restart =
     demo_world
       (demo_config [''a.txt''] [(''a.txt'', ''md5:v2'')] [(''.FileSync/a.txt'', ''md5:v1'')])
       [''a.txt'' \<mapsto> ''v2''] [''.FileSync/a.txt'' \<mapsto> ''v1'']"

text \<open>The local copy became \<open>v2\<close>, and \<open>config.json\<close> no longer holds JSON.\<close>

definition w_corrupt :: world where
  "w_corrupt = (demo_world cfg_a [''a.txt'' \<mapsto> ''v2''] [''.FileSync/a.txt'' \<mapsto> ''v1''])
     \<lparr>cfg_file := Some ''not json''\<rparr>"

text \<open>The tracked file is on neither machine.\<close>

definition w_gone :: world where
  "w_gone = demo_world cfg_a Map.empty Map.empty"

text \<open>
  A tracked file \<open>n.txt\<close> with no stored digest on either side; the host holds an older
  copy.
\<close>

definition cfg_new :: json where
  "cfg_new = demo_config [''n.txt''] [] []"

definition w_new :: world where
  "w_new = demo_world cfg_new [''n.txt'' \<mapsto> ''v1''] [''.FileSync/n.txt'' \<mapsto> ''v0'']"

text \<open>
  Two tracked files, both unchanged and both on the host, with a stored remote digest
  for the first only: what \<open>config.json\<close> holds after a pass in which the host had
  \<open>a.txt\<close> and not yet \<open>b.txt\<close>.
\<close>

definition cfg_two :: json where
  "cfg_two = demo_config [''a.txt'', ''b.txt'']
     [(''a.txt'', ''md5:v1''), (''b.txt'', ''md5:v5'')] [(''.FileSync/a.txt'', ''md5:v1'')]"

definition w_two :: world where
  "w_two = demo_world cfg_two
     [''a.txt'' \<mapsto> ''v1'', ''b.txt'' \<mapsto> ''v5'']
     [''.FileSync/a.txt'' \<mapsto> ''v1'', ''.FileSync/b.txt'' \<mapsto> ''v5'']"

text \<open>
  The world in which that \<open>config.json\<close> comes about: a start with the configuration
  \<open>initConfig\<close> wrote for the two files, the host holding \<open>a.txt\<close> only.
\<close>

definition w_two_before :: world where
  "w_two_before = demo_world
     (demo_config [''a.txt'', ''b.txt''] [(''a.txt'', ''md5:v1''), (''b.txt'', ''md5:v5'')] [])
     [''a.txt'' \<mapsto> ''v1'', ''b.txt'' \<mapsto> ''v5'']
     [''.FileSync/a.txt'' \<mapsto> ''v1'']"



section \<open>Properties\<close>

subsection \<open>What each operation leaves alone\<close>

lemma getSSHClient_eq:
  "getSSHClient w =
     ((case conn_ok w of [] \<Rightarrow> True | b # bs \<Rightarrow> b), w\<lparr>conn_ok := tl (conn_ok w)\<rparr>)"
  by (simp add: getSSHClient_def split: list.splits)

lemma next_transfer_eq:
  "next_transfer w =
     ((case scp_ok w of [] \<Rightarrow> True | b # bs \<Rightarrow> b), w\<lparr>scp_ok := tl (scp_ok w)\<rparr>)"
  by (simp add: next_transfer_def split: list.splits)

lemma and_then_keeps:
  assumes "\<And>a w1. g (snd (k a w1)) = g w1"
  shows "g (snd (and_then m k)) = g (snd m)"
proof (cases m)
  case (Pair r w1)
  then show ?thesis using assms by (cases r) auto
qed


text \<open>\<open>updateConfig\<close> changes nothing but the content of \<open>config.json\<close>.\<close>

lemma updateConfig_frame:
  "\<exists>t. snd (updateConfig X key val w) = w\<lparr>cfg_file := t\<rparr>"
proof (cases "cfg_file w")
  case None
  then have "snd (updateConfig X key val w) = w\<lparr>cfg_file := cfg_file w\<rparr>"
    by (simp add: updateConfig_def)
  then show ?thesis by blast
next
  case (Some raw)
  show ?thesis
  proof (cases "cfg_read_ok w \<and> json_loads X raw \<noteq> None")
    case False
    then have "snd (updateConfig X key val w) = w\<lparr>cfg_file := cfg_file w\<rparr>"
      using Some by (auto simp: updateConfig_def)
    then show ?thesis by blast
  next
    case True
    then obtain loaded where l: "json_loads X raw = Some loaded" by auto
    show ?thesis
    proof (cases "assign_key loaded key val")
      case (Ret changed)
      then have "snd (updateConfig X key val w) =
                 w\<lparr>cfg_file := (if cfg_write_ok w then Some (json_dumps X changed) else cfg_file w)\<rparr>"
        using Some True l by (simp add: updateConfig_def lift_def)
      then show ?thesis by blast
    next
      case (Exit n)
      then have "snd (updateConfig X key val w) = w\<lparr>cfg_file := cfg_file w\<rparr>"
        using Some True l by (simp add: updateConfig_def lift_def)
      then show ?thesis by blast
    next
      case (Raise e)
      then have "snd (updateConfig X key val w) = w\<lparr>cfg_file := cfg_file w\<rparr>"
        using Some True l by (simp add: updateConfig_def lift_def)
      then show ?thesis by blast
    qed
  qed
qed

lemma updateConfig_emit:
  "updateConfig X key val (emit e w) =
     (fst (updateConfig X key val w), emit e (snd (updateConfig X key val w)))"
proof (cases "cfg_file w")
  case None
  then show ?thesis by (simp add: updateConfig_def emit_def)
next
  case (Some raw)
  show ?thesis
  proof (cases "json_loads X raw")
    case None
    then show ?thesis using Some by (simp add: updateConfig_def emit_def)
  next
    case (Some loaded)
    then show ?thesis using \<open>cfg_file w = Some raw\<close>
      by (cases "assign_key loaded key val") (simp_all add: updateConfig_def emit_def lift_def)
  qed
qed

lemma updateLocalHash_frame:
  "\<exists>t. snd (updateLocalHash X f w) = w\<lparr>cfg_file := t\<rparr>"
proof (cases "local_fs w f")
  case None
  then have "snd (updateLocalHash X f w) = w\<lparr>cfg_file := cfg_file w\<rparr>"
    by (simp add: updateLocalHash_def)
  then show ?thesis by blast
next
  case (Some data)
  let ?u = "updateConfig X ''local_hashes'' (JDict [(f, JStr (md5_hex X data))]) w"
  obtain t where t: "snd ?u = w\<lparr>cfg_file := t\<rparr>"
    using updateConfig_frame by blast
  have "snd (updateLocalHash X f w) = w\<lparr>cfg_file := t\<rparr>"
    using Some t
    by (cases ?u; cases "fst ?u") (auto simp: updateLocalHash_def getMD5_def lift_def)
  then show ?thesis by blast
qed

lemma updateLocalHash_keeps:
  "local_fs (snd (updateLocalHash X f w)) = local_fs w"
  "remote_fs (snd (updateLocalHash X f w)) = remote_fs w"
  "config (snd (updateLocalHash X f w)) = config w"
  "trace (snd (updateLocalHash X f w)) = trace w"
  "conn_ok (snd (updateLocalHash X f w)) = conn_ok w"
  "scp_ok (snd (updateLocalHash X f w)) = scp_ok w"
  using updateLocalHash_frame[of X f w] by auto

lemma updateLocalHash_emit:
  "updateLocalHash X f (emit e w) =
     (fst (updateLocalHash X f w), emit e (snd (updateLocalHash X f w)))"
proof (cases "local_fs w f")
  case None
  then show ?thesis by (simp add: updateLocalHash_def emit_def)
next
  case (Some data)
  let ?u = "updateConfig X ''local_hashes'' (JDict [(f, JStr (md5_hex X data))]) w"
  show ?thesis
    using Some
    by (cases ?u; cases "fst ?u")
       (auto simp: updateLocalHash_def getMD5_def lift_def updateConfig_emit, auto simp: emit_def)
qed

text \<open>
  \<open>updateRemoteHash\<close> uses up one connection, asks the host for the digest when it has a
  client, and otherwise changes nothing but the content of \<open>config.json\<close>.
\<close>

lemma updateRemoteHash_frame:
  "\<exists>t. snd (updateRemoteHash X f w) =
      w\<lparr>cfg_file := t, conn_ok := tl (conn_ok w),
        trace := trace w @ (if fst (getSSHClient w) then [ExecMd5sum (remote_path X f)] else [])\<rparr>"
proof (cases "fst (getSSHClient w)")
  case False
  then have "snd (updateRemoteHash X f w) =
      w\<lparr>cfg_file := cfg_file w, conn_ok := tl (conn_ok w), trace := trace w @ []\<rparr>"
    by (simp add: updateRemoteHash_def getSSHClient_eq)
  then show ?thesis using False by (intro exI[of _ "cfg_file w"]) simp
next
  case True
  let ?w2 = "emit (ExecMd5sum (remote_path X f)) (w\<lparr>conn_ok := tl (conn_ok w)\<rparr>)"
  show ?thesis
  proof (cases "remote_fs w (remote_path X f)")
    case None
    then have "snd (updateRemoteHash X f w) =
      w\<lparr>cfg_file := cfg_file w, conn_ok := tl (conn_ok w),
        trace := trace w @ [ExecMd5sum (remote_path X f)]\<rparr>"
      using True by (simp add: updateRemoteHash_def getSSHClient_eq emit_def Let_def)
    then show ?thesis using True by (intro exI[of _ "cfg_file w"]) simp
  next
    case (Some data)
    let ?u = "updateConfig X ''remote_hashes''
                (JDict [(remote_path X f, JStr (md5_hex X data))]) ?w2"
    obtain t where t: "snd ?u = ?w2\<lparr>cfg_file := t\<rparr>"
      using updateConfig_frame by blast
    have "snd (updateRemoteHash X f w) = ?w2\<lparr>cfg_file := t\<rparr>"
      using True Some t
      by (cases ?u; cases "fst ?u")
         (auto simp: updateRemoteHash_def getSSHClient_eq emit_def Let_def)
    then have "snd (updateRemoteHash X f w) =
      w\<lparr>cfg_file := t, conn_ok := tl (conn_ok w),
        trace := trace w @ [ExecMd5sum (remote_path X f)]\<rparr>"
      by (simp add: emit_def)
    then show ?thesis using True by (intro exI[of _ t]) simp
  qed
qed

lemma updateRemoteHash_keeps:
  "local_fs (snd (updateRemoteHash X f w)) = local_fs w"
  "remote_fs (snd (updateRemoteHash X f w)) = remote_fs w"
  "config (snd (updateRemoteHash X f w)) = config w"
  "filter is_get (trace (snd (updateRemoteHash X f w))) = filter is_get (trace w)"
  using updateRemoteHash_frame[of X f w] by auto

lemma upload_frame:
  "local_fs (snd (upload X f w)) = local_fs w"
  "config (snd (upload X f w)) = config w"
  "cfg_file (snd (upload X f w)) = cfg_file w"
  "filter is_get (trace (snd (upload X f w))) = filter is_get (trace w)"
  by (simp_all add: upload_def getSCPClient_def getSSHClient_eq next_transfer_eq emit_def Let_def
        split: option.splits)

lemma upload_sends:
  assumes "local_fs w f = Some data" and "conn_ok w = []" and "scp_ok w = []"
  shows "remote_fs (snd (upload X f w)) (remote_path X f) = Some data"
  using assms
  by (simp add: upload_def getSCPClient_def getSSHClient_eq next_transfer_eq emit_def Let_def)

subsection \<open>The remote path each transport call names\<close>

lemma upload_trace:
  "trace (snd (upload X f w)) =
     trace w @ (if fst (getSCPClient w) then [ScpPut f (remote_path X f)] else [])"
  by (simp add: upload_def getSCPClient_def getSSHClient_eq next_transfer_eq emit_def Let_def
        split: option.splits)

lemma download_trace:
  "trace (snd (download X f w)) =
     trace w @ (if fst (getSCPClient w) then [ScpGet (remote_path X f) f] else [])"
  by (simp add: download_def getSCPClient_def getSSHClient_eq next_transfer_eq emit_def Let_def
        split: option.splits)

lemma checkRemoteFile_trace:
  "trace (snd (checkRemoteFile X f w)) =
     trace w @ (if fst (getSSHClient w) then [ExecMd5sum (remote_path X f)] else [])"
  by (simp add: checkRemoteFile_def getSSHClient_eq emit_def Let_def lift_def
        split: option.splits)

lemma updateRemoteHash_trace:
  "trace (snd (updateRemoteHash X f w)) =
     trace w @ (if fst (getSSHClient w) then [ExecMd5sum (remote_path X f)] else [])"
  using updateRemoteHash_frame[of X f w] by auto

lemma split_sep_nonempty: "split_sep sep s \<noteq> []"
  by (induction s) (auto split: list.splits)

lemma split_sep_append:
  "split_sep sep (xs @ sep # ys) = split_sep sep xs @ split_sep sep ys"
proof (induction xs)
  case Nil
  then show ?case by simp
next
  case (Cons c xs)
  then show ?case
    using split_sep_nonempty[of sep xs] by (cases "split_sep sep xs") auto
qed

lemma split_sep_no_sep: "sep \<notin> set s \<Longrightarrow> split_sep sep s = [s]"
  by (induction s) auto

lemma last_component_of_path:
  "path_sep X \<notin> set name \<Longrightarrow> last_component X (dir @ path_sep X # name) = name"
  by (simp add: last_component_def split_sep_append split_sep_no_sep)

subsection \<open>The upload branch\<close>

lemma upload_branch_keeps_local:
  "local_fs (snd (upload_branch X f w)) = local_fs w"
  unfolding upload_branch_def
  by (simp add: and_then_keeps[where g=local_fs] upload_frame updateLocalHash_keeps
        updateRemoteHash_keeps emit_def)

lemma upload_branch_fetches_nothing:
  "filter is_get (trace (snd (upload_branch X f w))) = filter is_get (trace w)"
  unfolding upload_branch_def
  by (simp add: and_then_keeps[where g="\<lambda>w. filter is_get (trace w)"] upload_frame
        updateLocalHash_keeps updateRemoteHash_keeps emit_def)

lemma upload_branch_sends:
  assumes "local_fs w f = Some data" and "conn_ok w = []" and "scp_ok w = []"
  shows "remote_fs (snd (upload_branch X f w)) (remote_path X f) = Some data"
proof -
  let ?w0 = "emit (LogLocalChangedUpload f) w"
  have "remote_fs (snd (upload X f ?w0)) (remote_path X f) = Some data"
    using assms by (intro upload_sends) (simp_all add: emit_def)
  then show ?thesis
    unfolding upload_branch_def
    by (simp add: and_then_keeps[where g="\<lambda>w. remote_fs w (remote_path X f)"]
          updateLocalHash_keeps updateRemoteHash_keeps emit_def)
qed

subsection \<open>The local comparison\<close>

lemma checkLocalFile_cong:
  "local_fs w1 = local_fs w \<Longrightarrow> config w1 = config w \<Longrightarrow>
   checkLocalFile X f w1 = checkLocalFile X f w"
  by (simp add: checkLocalFile_def getMD5_def cong: if_cong)

lemma checkLocalFile_changed:
  assumes "local_fs w f = Some data"
      and "py_getitem (config w) ''local_hashes'' = Ret (JDict hashes)"
      and "map_of hashes f = Some (JStr stored)"
      and "stored \<noteq> md5_hex X data"
  shows "checkLocalFile X f w = Ret False"
    and "hash_recorded ''local_hashes'' f w = Ret True"
proof -
  have in_keys: "f \<in> fst ` set hashes"
    using assms(3) by (metis map_of_eq_None_iff option.distinct(1))
  then have ne: "hashes \<noteq> []" by auto
  show "checkLocalFile X f w = Ret False"
    using assms in_keys ne
    by (auto simp: checkLocalFile_def getMD5_def secure_compare_def)
  show "hash_recorded ''local_hashes'' f w = Ret True"
    using assms in_keys ne by (simp add: hash_recorded_def)
qed

lemma not_recorded_not_same:
  assumes "local_fs w f = Some data"
      and "hash_recorded ''local_hashes'' f w = Ret False"
  shows "checkLocalFile X f w = Ret False"
proof (cases "py_getitem (config w) ''local_hashes''")
  case (Ret hashes)
  then show ?thesis
    using assms by (cases "py_truthy hashes") (simp_all add: checkLocalFile_def hash_recorded_def)
next
  case (Exit n)
  then show ?thesis using assms by (simp add: hash_recorded_def)
next
  case (Raise e)
  then show ?thesis using assms by (simp add: hash_recorded_def)
qed

subsection \<open>The first start\<close>


subsection \<open>\<open>updateConfig\<close> and the other keys\<close>

lemma assign_key_other_keys:
  assumes "assign_key (JDict kvs) key val = Ret (JDict kvs')" and "k \<noteq> key"
  shows "map_of kvs' k = map_of kvs k"
  using assms by (auto simp: update_conv' split: option.splits if_splits)

text \<open>A stored mapping that is not empty is replaced by \<open>None\<close>, whatever the update.\<close>

lemma assign_key_discards:
  assumes "map_of kvs key = Some (JDict (entry # entries))"
  shows "assign_key (JDict kvs) key (JDict new) = Ret (JDict (AList.update key JNull kvs))"
  using assms by simp

section \<open>The claims\<close>

subsection \<open>C1: a change on both sides\<close>

text \<open>
  C1 says that a file changed on both sides since the stored digests, to different
  contents, is reported as a conflict, with neither an upload nor a download. In
  \<open>w_both\<close> the local digest and the remote digest both differ from the stored ones and
  from each other, and \<open>sync\<close> uploads: it sends the local file and asks the host for
  the new digest, and the remote content \<open>v3\<close> is replaced by the local \<open>v2\<close>.
\<close>

theorem double_change_uploads:
  "checkLocalFile demo_ext ''a.txt'' w_both = Ret False
   \<and> fst (checkRemoteFile demo_ext ''a.txt'' w_both) = Ret False
   \<and> md5_hex demo_ext ''v2'' \<noteq> md5_hex demo_ext ''v3''
   \<and> remote_fs w_both ''.FileSync/a.txt'' = Some ''v3''
   \<and> trace (snd (sync_file demo_ext ''a.txt'' w_both)) =
        [LogLocalChangedUpload ''a.txt'', ScpPut ''a.txt'' ''.FileSync/a.txt'',
         ExecMd5sum ''.FileSync/a.txt'', LogRemoteUpdated ''a.txt'']
   \<and> remote_fs (snd (sync_file demo_ext ''a.txt'' w_both)) ''.FileSync/a.txt'' = Some ''v2''"
  by code_simp

text \<open>
  C1 as amended. For every tracked file that exists locally and whose digest stored in
  \<open>self.config\<close> differs from the digest of the local content, the pass takes the
  upload branch without looking at the remote side: the local files stay as they are,
  nothing is fetched, and when the connection and the transfer succeed the remote copy
  becomes the local content, whatever the host held. The program has no conflict outcome.
\<close>

theorem local_change_uploads_unconditionally:
  assumes "local_fs w f = Some data"
      and "py_getitem (config w) ''local_hashes'' = Ret (JDict hashes)"
      and "map_of hashes f = Some (JStr stored)"
      and "stored \<noteq> md5_hex X data"
  shows "sync_file X f w = upload_branch X f w
       \<and> local_fs (snd (sync_file X f w)) = local_fs w
       \<and> filter is_get (trace (snd (sync_file X f w))) = filter is_get (trace w)
       \<and> (conn_ok w = [] \<and> scp_ok w = [] \<longrightarrow>
            remote_fs (snd (sync_file X f w)) (remote_path X f) = Some data)"
proof -
  have s: "sync_file X f w = upload_branch X f w"
    using assms(1) checkLocalFile_changed[OF assms]
    by (simp add: sync_file_def lift_def)
  show ?thesis
    unfolding s
    using upload_branch_keeps_local upload_branch_fetches_nothing upload_branch_sends[OF assms(1)]
    by simp
qed

text \<open>The amended C1 at \<open>w_both\<close>, where the host held \<open>v3\<close>.\<close>

theorem local_change_uploads_unconditionally_witness:
  "local_fs w_both ''a.txt'' = Some ''v2''
   \<and> py_getitem (config w_both) ''local_hashes'' = Ret (JDict [(''a.txt'', JStr ''md5:v1'')])
   \<and> ''md5:v1'' \<noteq> md5_hex demo_ext ''v2''
   \<and> sync_file demo_ext ''a.txt'' w_both = upload_branch demo_ext ''a.txt'' w_both
   \<and> local_fs (snd (sync_file demo_ext ''a.txt'' w_both)) = local_fs w_both
   \<and> remote_fs (snd (sync_file demo_ext ''a.txt'' w_both)) (remote_path demo_ext ''a.txt'')
        = Some ''v2''"
proof -
  have h1: "local_fs w_both ''a.txt'' = Some ''v2''"
    by (simp add: w_both_def demo_world_def)
  have h2: "py_getitem (config w_both) ''local_hashes'' = Ret (JDict [(''a.txt'', JStr ''md5:v1'')])"
    by (simp add: w_both_def demo_world_def cfg_a_def demo_config_def)
  have h3: "map_of [(''a.txt'', JStr ''md5:v1'')] ''a.txt'' = Some (JStr ''md5:v1'')"
    by simp
  have h4: "''md5:v1'' \<noteq> md5_hex demo_ext ''v2''"
    by (simp add: demo_ext_def demo_md5_def)
  have net: "conn_ok w_both = [] \<and> scp_ok w_both = []"
    by (simp add: w_both_def demo_world_def)
  show ?thesis
    using local_change_uploads_unconditionally[OF h1 h2 h3 h4] h1 h2 h4 net by blast
qed

subsection \<open>C2: the stored digests after a transfer\<close>

text \<open>
  C2 says that both stored digests are written exactly when a transfer has completed,
  and are left untouched when it fails. In \<open>w_down\<close> the host cannot be reached:
  \<open>upload\<close> returns False and nothing is sent, the remote copy stays \<open>v1\<close>, and the pass
  still rewrites \<open>config.json\<close>, because lines 505 to 507 call \<open>updateLocalHash\<close> and
  \<open>updateRemoteHash\<close> without looking at what \<open>upload\<close> returned (line 543 does look at
  what \<open>download\<close> returned). The first pass leaves \<open>null\<close> in place of the stored local
  digests, through the assignment C4 is about; the second pass, the host still out of
  reach, stores the digest of the local \<open>v2\<close> that was never sent. A later start from that
  \<open>config.json\<close> finds both digests verified and reports the file as up to date, with
  \<open>v2\<close> on the local machine and \<open>v1\<close> on the host.
\<close>

theorem failed_upload_rewrites_digests:
  "fst (upload demo_ext ''a.txt'' w_down) = Ret False
   \<and> fst (sync_file demo_ext ''a.txt'' w_down) = Ret ()
   \<and> trace (snd (sync_file demo_ext ''a.txt'' w_down)) =
        [LogLocalChangedUpload ''a.txt'', LogRemoteUpdated ''a.txt'']
   \<and> remote_fs (snd (sync_file demo_ext ''a.txt'' w_down)) ''.FileSync/a.txt'' = Some ''v1''
   \<and> map_option demo_loads (cfg_file w_down) =
        Some (Some (demo_config [''a.txt''] [(''a.txt'', ''md5:v1'')]
                      [(''.FileSync/a.txt'', ''md5:v1'')]))
   \<and> map_option demo_loads (cfg_file (snd (sync_file demo_ext ''a.txt'' w_down))) =
        Some (Some (JDict
          [(''hostname'', JStr ''host''), (''port'', JInt 22), (''username'', JStr ''u''),
           (''password'', JStr ''p''), (''local_files'', JList [JStr ''a.txt'']),
           (''local_hashes'', JNull),
           (''remote_hashes'', JDict [(''.FileSync/a.txt'', JStr ''md5:v1'')])]))
   \<and> remote_fs (snd (sync demo_ext (Suc (Suc 0)) w_down2)) ''.FileSync/a.txt'' = Some ''v1''
   \<and> map_option demo_loads (cfg_file (snd (sync demo_ext (Suc (Suc 0)) w_down2))) =
        Some (Some (demo_config [''a.txt''] [(''a.txt'', ''md5:v2'')]
                      [(''.FileSync/a.txt'', ''md5:v1'')]))
   \<and> map_option demo_loads (cfg_file w_restart) =
        Some (Some (demo_config [''a.txt''] [(''a.txt'', ''md5:v2'')]
                      [(''.FileSync/a.txt'', ''md5:v1'')]))
   \<and> trace (snd (sync_file demo_ext ''a.txt'' w_restart)) =
        [ExecMd5sum ''.FileSync/a.txt'', LogUpToDate ''a.txt'']
   \<and> local_fs (snd (sync_file demo_ext ''a.txt'' w_restart)) ''a.txt'' = Some ''v2''
   \<and> remote_fs (snd (sync_file demo_ext ''a.txt'' w_restart)) ''.FileSync/a.txt'' = Some ''v1''"
  by code_simp

subsection \<open>C3: a local file with no stored digest\<close>

text \<open>
  C3. For every file that exists locally and has no local digest in the stored state
  (\<open>self.config\<close>), the pass decides to upload, whatever the remote digest is, and so
  also when it does not match the stored remote digest: once \<open>updateLocalHash\<close> has
  written the digest to \<open>config.json\<close>, \<open>checkLocalFile\<close> still reads \<open>self.config\<close>,
  finds no digest, and the pass continues as the upload branch. The local file is not
  overwritten, nothing is fetched, and when the connection and the transfer succeed the
  remote copy becomes the local content. The third hypothesis says that the store takes
  the digest (a \<open>config.json\<close> that cannot be read ends the process there, see C7).
\<close>

theorem untracked_local_file_is_uploaded:
  assumes "local_fs w f = Some data"
      and "hash_recorded ''local_hashes'' f w = Ret False"
      and "fst (updateLocalHash X f w) = Ret True"
  shows "sync_file X f w =
           upload_branch X f (emit (LogLocalHashNotFound f) (snd (updateLocalHash X f w)))
       \<and> local_fs (snd (sync_file X f w)) = local_fs w
       \<and> filter is_get (trace (snd (sync_file X f w))) = filter is_get (trace w)
       \<and> (conn_ok w = [] \<and> scp_ok w = [] \<longrightarrow>
            remote_fs (snd (sync_file X f w)) (remote_path X f) = Some data)"
proof -
  let ?w1 = "emit (LogLocalHashNotFound f) (snd (updateLocalHash X f w))"
  have c0: "checkLocalFile X f w = Ret False"
    using not_recorded_not_same[OF assms(1,2)] .
  have "local_fs ?w1 = local_fs w" and "config ?w1 = config w"
    by (simp_all add: emit_def updateLocalHash_keeps)
  then have c1: "checkLocalFile X f ?w1 = Ret False"
    using c0 checkLocalFile_cong by metis
  have s: "sync_file X f w = upload_branch X f ?w1"
    using assms c0 c1 by (simp add: sync_file_def lift_def updateLocalHash_emit)
  have l1: "local_fs ?w1 = local_fs w" "filter is_get (trace ?w1) = filter is_get (trace w)"
    "conn_ok ?w1 = conn_ok w" "scp_ok ?w1 = scp_ok w"
    by (simp_all add: emit_def updateLocalHash_keeps)
  have sent: "conn_ok w = [] \<and> scp_ok w = [] \<longrightarrow>
        remote_fs (snd (upload_branch X f ?w1)) (remote_path X f) = Some data"
    using upload_branch_sends[of ?w1 f data X] assms(1) l1 by simp
  show ?thesis
    unfolding s
    using upload_branch_keeps_local[of X f ?w1] upload_branch_fetches_nothing[of X f ?w1] l1 sent
    by simp
qed

text \<open>
  C3 at \<open>w_new\<close>: the stored remote digest is missing, the host holds \<open>v0\<close>, and after
  the pass it holds the local \<open>v1\<close>.
\<close>

theorem untracked_local_file_is_uploaded_witness:
  "local_fs w_new ''n.txt'' = Some ''v1''
   \<and> hash_recorded ''local_hashes'' ''n.txt'' w_new = Ret False
   \<and> fst (updateLocalHash demo_ext ''n.txt'' w_new) = Ret True
   \<and> remote_fs w_new (remote_path demo_ext ''n.txt'') = Some ''v0''
   \<and> local_fs (snd (sync_file demo_ext ''n.txt'' w_new)) = local_fs w_new
   \<and> remote_fs (snd (sync_file demo_ext ''n.txt'' w_new)) (remote_path demo_ext ''n.txt'')
        = Some ''v1''"
proof -
  have h1: "local_fs w_new ''n.txt'' = Some ''v1''"
    by (simp add: w_new_def demo_world_def)
  have h2: "hash_recorded ''local_hashes'' ''n.txt'' w_new = Ret False"
    by code_simp
  have h3: "fst (updateLocalHash demo_ext ''n.txt'' w_new) = Ret True"
    by code_simp
  have r0: "remote_fs w_new (remote_path demo_ext ''n.txt'') = Some ''v0''"
    by code_simp
  have net: "conn_ok w_new = [] \<and> scp_ok w_new = []"
    by (simp add: w_new_def demo_world_def)
  show ?thesis
    using untracked_local_file_is_uploaded[OF h1 h2 h3] h1 h2 h3 r0 net by blast
qed

subsection \<open>C4: what \<open>updateConfig\<close> writes\<close>

text \<open>
  C4 says that the update merges one digest into the stored mapping and leaves the
  other entries of the mapping alone. In \<open>w_two\<close> the stored \<open>remote_hashes\<close> hold the
  digest of \<open>a.txt\<close>; the call \<open>updateRemoteHash\<close> makes for \<open>b.txt\<close> returns True and
  leaves \<open>null\<close> under \<open>remote_hashes\<close>: line 431 assigns the result of \<open>dict.update\<close>,
  which is \<open>None\<close>, so the entry of \<open>a.txt\<close> is lost and the one of \<open>b.txt\<close> is not
  stored. The other keys are as they were.
\<close>

theorem updateConfig_discards_mapping:
  "map_option demo_loads (cfg_file w_two) =
     Some (Some (demo_config [''a.txt'', ''b.txt'']
                   [(''a.txt'', ''md5:v1''), (''b.txt'', ''md5:v5'')]
                   [(''.FileSync/a.txt'', ''md5:v1'')]))
   \<and> fst (updateConfig demo_ext ''remote_hashes''
             (JDict [(''.FileSync/b.txt'', JStr ''md5:v5'')]) w_two) = Ret True
   \<and> map_option demo_loads
        (cfg_file (snd (updateConfig demo_ext ''remote_hashes''
                          (JDict [(''.FileSync/b.txt'', JStr ''md5:v5'')]) w_two))) =
      Some (Some (JDict
        [(''hostname'', JStr ''host''), (''port'', JInt 22), (''username'', JStr ''u''),
         (''password'', JStr ''p''), (''local_files'', JList [JStr ''a.txt'', JStr ''b.txt'']),
         (''local_hashes'', JDict [(''a.txt'', JStr ''md5:v1''), (''b.txt'', JStr ''md5:v5'')]),
         (''remote_hashes'', JNull)]))"
  by code_simp

subsection \<open>C5: \<open>secure_compare\<close>\<close>

text \<open>
  C5. For every pair of digest strings, \<open>secure_compare\<close> returns True exactly when the two
  strings are equal: the length test followed by \<open>==\<close> is plain string equality.
\<close>

theorem secure_compare_is_equality: "secure_compare h1 h2 \<longleftrightarrow> h1 = h2"
  by (auto simp: secure_compare_def)

subsection \<open>C6: saving and loading the configuration\<close>



subsection \<open>C7: a \<open>config.json\<close> that does not parse\<close>

text \<open>
  C7 says that an unparsable \<open>config.json\<close> is fatal at the start and never during the
  loop. In \<open>w_corrupt\<close> the program has started, the local file has changed and
  \<open>config.json\<close> has stopped being JSON: the first pass of the loop ends the process
  with exit code 1, in the \<open>updateConfig\<close> that \<open>updateLocalHash\<close> calls.
\<close>

theorem corrupt_state_ends_sync_loop:
  "cfg_file w_corrupt = Some ''not json''
   \<and> json_loads demo_ext ''not json'' = None
   \<and> fst (sync demo_ext (Suc 0) w_corrupt) = Exit 1"
  by code_simp

text \<open>
  C7 as amended. A \<open>config.json\<close> that does not parse ends the process with exit code 1
  when it is loaded at the start, and equally whenever the loop stores a digest:
  \<open>updateConfig\<close> reads the file again and exits with code 1, writing nothing.
\<close>

theorem unparsable_state_is_fatal:
  assumes "cfg_file w = Some raw" and "json_loads X raw = None"
  shows "initConfig X w = (Exit 1, w) \<and> updateConfig X key val w = (Exit 1, w)"
  using assms by (simp add: initConfig_def updateConfig_def)

text \<open>The amended C7 at \<open>w_corrupt\<close>.\<close>

theorem unparsable_state_is_fatal_witness:
  "cfg_file w_corrupt = Some ''not json''
   \<and> json_loads demo_ext ''not json'' = None
   \<and> initConfig demo_ext w_corrupt = (Exit 1, w_corrupt)
   \<and> updateConfig demo_ext ''local_hashes'' (JDict [(''a.txt'', JStr ''md5:v2'')]) w_corrupt
        = (Exit 1, w_corrupt)"
proof -
  have h1: "cfg_file w_corrupt = Some ''not json''"
    by (simp add: w_corrupt_def demo_world_def)
  have h2: "json_loads demo_ext ''not json'' = None"
    by code_simp
  show ?thesis
    using unparsable_state_is_fatal[OF h1 h2] h1 h2 by simp
qed

subsection \<open>C8: a file missing on both sides\<close>

text \<open>
  C8. For every tracked file that is neither on the local machine nor on the host, the
  pass tries the download, reports the file as found on neither side and goes on: it
  returns, and \<open>config.json\<close>, \<open>self.config\<close> and the files of both machines are as
  before.
\<close>

theorem missing_on_both_sides_is_reported:
  assumes "local_fs w f = None"
      and "remote_fs w (remote_path X f) = None"
  shows "fst (sync_file X f w) = Ret ()
       \<and> cfg_file (snd (sync_file X f w)) = cfg_file w
       \<and> config (snd (sync_file X f w)) = config w
       \<and> local_fs (snd (sync_file X f w)) = local_fs w
       \<and> remote_fs (snd (sync_file X f w)) = remote_fs w
       \<and> trace (snd (sync_file X f w)) =
           trace w @ LogLocalNotFoundTryDownload f
             # (if fst (getSCPClient w) then [ScpGet (remote_path X f) f] else [])
             @ [LogNotFoundRemoteAndLocal f]"
proof -
  let ?w0 = "emit (LogLocalNotFoundTryDownload f) w"
  have d: "fst (download X f ?w0) = Ret False"
    and keep: "cfg_file (snd (download X f ?w0)) = cfg_file w"
      "config (snd (download X f ?w0)) = config w"
      "local_fs (snd (download X f ?w0)) = local_fs w"
      "remote_fs (snd (download X f ?w0)) = remote_fs w"
    using assms(2)
    by (simp_all add: download_def getSCPClient_def getSSHClient_eq emit_def Let_def)
  have t: "trace (snd (download X f ?w0)) =
      trace w @ LogLocalNotFoundTryDownload f
        # (if fst (getSCPClient w) then [ScpGet (remote_path X f) f] else [])"
    by (simp add: download_trace) (simp add: emit_def getSCPClient_def getSSHClient_eq)
  have s: "sync_file X f w =
      (Ret (), emit (LogNotFoundRemoteAndLocal f) (snd (download X f ?w0)))"
    using assms(1) d by (cases "download X f ?w0") (simp add: sync_file_def)
  show ?thesis
    unfolding s using keep t by (simp add: emit_def)
qed

text \<open>C8 at \<open>w_gone\<close>.\<close>

theorem missing_on_both_sides_is_reported_witness:
  "local_fs w_gone ''a.txt'' = None
   \<and> remote_fs w_gone (remote_path demo_ext ''a.txt'') = None
   \<and> fst (sync_file demo_ext ''a.txt'' w_gone) = Ret ()
   \<and> cfg_file (snd (sync_file demo_ext ''a.txt'' w_gone)) = cfg_file w_gone
   \<and> config (snd (sync_file demo_ext ''a.txt'' w_gone)) = config w_gone
   \<and> trace (snd (sync_file demo_ext ''a.txt'' w_gone)) =
       [LogLocalNotFoundTryDownload ''a.txt'', ScpGet ''.FileSync/a.txt'' ''a.txt'',
        LogNotFoundRemoteAndLocal ''a.txt'']"
proof -
  have h1: "local_fs w_gone ''a.txt'' = None"
    by (simp add: w_gone_def demo_world_def)
  have h2: "remote_fs w_gone (remote_path demo_ext ''a.txt'') = None"
    by (simp add: w_gone_def demo_world_def)
  have p: "remote_path demo_ext ''a.txt'' = ''.FileSync/a.txt''"
    by code_simp
  have c: "fst (getSCPClient w_gone)" "trace w_gone = []"
    by (simp_all add: w_gone_def demo_world_def getSCPClient_def getSSHClient_eq)
  show ?thesis
    using missing_on_both_sides_is_reported[OF h1 h2] h1 h2 p c by simp
qed

subsection \<open>C9: \<open>checkRemoteFile\<close> and a missing stored digest\<close>

text \<open>
  C9 says that, when the host answers with a digest, the comparison returns a boolean
  whatever keys the stored \<open>remote_hashes\<close> hold. In \<open>w_two\<close> they hold the digest of
  \<open>a.txt\<close> only, and \<open>checkRemoteFile\<close> for \<open>b.txt\<close> raises \<open>KeyError\<close>: line 361 tests
  that \<open>remote_hashes\<close> is not empty and then reads \<open>remote_hashes[remote_path]\<close>,
  where \<open>checkLocalFile\<close> tests \<open>filepath in\<close> first. Nothing catches the exception, so it
  ends the loop. The program writes such a \<open>config.json\<close> itself: one pass in
  \<open>w_two_before\<close> leaves the configuration of \<open>w_two\<close>.
\<close>

theorem checkRemoteFile_raises_KeyError:
  "remote_fs w_two (remote_path demo_ext ''b.txt'') = Some ''v5''
   \<and> py_getitem (config w_two) ''remote_hashes'' =
        Ret (JDict [(''.FileSync/a.txt'', JStr ''md5:v1'')])
   \<and> fst (checkRemoteFile demo_ext ''b.txt'' w_two) = Raise KeyError
   \<and> fst (sync demo_ext (Suc 0) w_two) = Raise KeyError
   \<and> fst (sync demo_ext (Suc 0) w_two_before) = Ret ()
   \<and> map_option demo_loads (cfg_file (snd (sync demo_ext (Suc 0) w_two_before))) =
        Some (Some (config w_two))"
  by code_simp

subsection \<open>C10: the key of a file on the host\<close>

text \<open>
  C10 says that distinct tracked files have distinct keys on the host. Two files of the
  same name in different directories have the same one.
\<close>

theorem same_name_same_remote_key:
  "''x/a.txt'' \<noteq> ''y/a.txt''
   \<and> remote_path demo_ext ''x/a.txt'' = ''.FileSync/a.txt''
   \<and> remote_path demo_ext ''y/a.txt'' = ''.FileSync/a.txt''"
  by code_simp

text \<open>
  C10 as amended. The key of a tracked file on the host is \<open>.FileSync/\<close> followed by the
  last component of its local path, whatever the directory; \<open>upload\<close>, \<open>download\<close>, the
  digest probe of \<open>checkRemoteFile\<close> and \<open>updateRemoteHash\<close> all name that key for the
  file (and the local path on the local side), each time they have a client; so two
  tracked files have distinct keys on the host exactly when their last components
  differ.
\<close>

theorem remote_key_is_last_component:
  "(remote_path X f = remote_path X g \<longleftrightarrow> last_component X f = last_component X g)
   \<and> (path_sep X \<notin> set name \<longrightarrow>
        remote_path X (dir @ path_sep X # name) = ''.FileSync/'' @ name)
   \<and> trace (snd (upload X f w)) =
       trace w @ (if fst (getSCPClient w) then [ScpPut f (remote_path X f)] else [])
   \<and> trace (snd (download X f w)) =
       trace w @ (if fst (getSCPClient w) then [ScpGet (remote_path X f) f] else [])
   \<and> trace (snd (checkRemoteFile X f w)) =
       trace w @ (if fst (getSSHClient w) then [ExecMd5sum (remote_path X f)] else [])
   \<and> trace (snd (updateRemoteHash X f w)) =
       trace w @ (if fst (getSSHClient w) then [ExecMd5sum (remote_path X f)] else [])"
proof -
  have k: "remote_path X f = remote_path X g \<longleftrightarrow> last_component X f = last_component X g"
    by (simp add: remote_path_def)
  have n: "path_sep X \<notin> set name \<longrightarrow>
      remote_path X (dir @ path_sep X # name) = ''.FileSync/'' @ name"
    by (simp add: remote_path_def REMOTE_PATH_def last_component_of_path)
  show ?thesis
    using k n upload_trace download_trace checkRemoteFile_trace updateRemoteHash_trace
    by blast
qed

text \<open>The amended C10 for \<open>docs/a.txt\<close> and \<open>a.txt\<close> in a world where the host answers.\<close>

theorem remote_key_is_last_component_witness:
  "path_sep demo_ext \<notin> set ''a.txt''
   \<and> remote_path demo_ext (''docs'' @ path_sep demo_ext # ''a.txt'') = ''.FileSync/'' @ ''a.txt''
   \<and> trace (snd (upload demo_ext ''a.txt'' w_both)) = [ScpPut ''a.txt'' ''.FileSync/a.txt'']
   \<and> trace (snd (download demo_ext ''a.txt'' w_both)) = [ScpGet ''.FileSync/a.txt'' ''a.txt'']
   \<and> trace (snd (checkRemoteFile demo_ext ''a.txt'' w_both)) = [ExecMd5sum ''.FileSync/a.txt'']
   \<and> trace (snd (updateRemoteHash demo_ext ''a.txt'' w_both)) = [ExecMd5sum ''.FileSync/a.txt'']"
proof -
  have h: "path_sep demo_ext \<notin> set ''a.txt''"
    by (simp add: demo_ext_def)
  have p: "remote_path demo_ext ''a.txt'' = ''.FileSync/a.txt''"
    by code_simp
  have c: "fst (getSCPClient w_both)" "fst (getSSHClient w_both)" "trace w_both = []"
    by (simp_all add: w_both_def demo_world_def getSCPClient_def getSSHClient_eq)
  show ?thesis
    using remote_key_is_last_component[of demo_ext "''a.txt''" "''a.txt''" "''a.txt''" "''docs''" w_both]
      h p c
    by simp
qed

end
